theory Spec2Isabelle
  imports Main "HOL-Library.Word"
begin

section \<open>The data model of \<open>sim.hpp\<close>\<close>

text \<open>
  The fixed-width integers of the header are words: \<open>uint8_t\<close> and \<open>int8_t\<close> are
  \<open>8 word\<close> (read by \<open>unat\<close> and by \<open>sint\<close>), \<open>int32_t\<close> is \<open>32 word\<close>,
  \<open>int64_t\<close> is \<open>64 word\<close>.
\<close>

definition NUM_MOVES :: nat where
  "NUM_MOVES = 6"


definition MAX_NUM_PLAYERS :: nat where
  "MAX_NUM_PLAYERS = 2"

definition MAX_NUM_INGREDIENTS :: nat where
  "MAX_NUM_INGREDIENTS = 3"

definition NUM_RECIPES :: nat where
  "NUM_RECIPES = (MAX_NUM_INGREDIENTS + 1) * (MAX_NUM_INGREDIENTS + 1)"

datatype ActionT = NORTH | SOUTH | EAST | WEST | STAY | INTERACT

datatype TerrainT = AIR | POT | COUNTER | ONION_SOURCE | TOMATO_SOURCE | DISH_SOURCE | SERVING

datatype ObjectT = NONE | TOMATO | ONION | DISH | SOUP

record Object =
  name :: ObjectT
  num_onions :: "8 word"
  num_tomatoes :: "8 word"
  cooking_tick :: "8 word"

text \<open>The default member initialisers of \<open>struct Object\<close>; \<open>cooking_tick = -1\<close>.\<close>

definition Object_default :: Object where
  "Object_default = \<lparr>name = NONE, num_onions = 0, num_tomatoes = 0, cooking_tick = - 1\<rparr>"

text \<open>
  Both methods compute in \<open>int\<close> (the \<open>uint8_t\<close> operands are promoted, and the sums
  stay far below the range of \<open>int\<close>) and narrow the result to the \<open>uint8_t\<close> return
  type.
\<close>

definition num_ingredients :: "Object \<Rightarrow> 8 word" where
  "num_ingredients obj = of_nat (unat (num_onions obj) + unat (num_tomatoes obj))"

definition get_recipe :: "Object \<Rightarrow> 8 word" where
  "get_recipe obj =
     of_nat ((MAX_NUM_INGREDIENTS + 1) * unat (num_onions obj) + unat (num_tomatoes obj))"

record PlayerState =
  position :: "8 word"
  orientation :: "8 word"
  proposed_position :: "8 word"
  proposed_orientation :: "8 word"
  held_object :: Object

definition has_object :: "PlayerState \<Rightarrow> bool" where
  "has_object s \<longleftrightarrow> name (held_object s) \<noteq> NONE"

definition get_object :: "PlayerState \<Rightarrow> Object" where
  "get_object s = held_object s"

definition set_object :: "Object \<Rightarrow> PlayerState \<Rightarrow> PlayerState" where
  "set_object obj s = s\<lparr>held_object := obj\<rparr>"

text \<open>\<open>remove_object\<close> returns the object held so far together with the updated player.\<close>

definition remove_object :: "PlayerState \<Rightarrow> Object \<times> PlayerState" where
  "remove_object s =
     (held_object s,
      s\<lparr>held_object :=
          \<lparr>name = NONE, num_onions = 0, num_tomatoes = 0, cooking_tick = - 1\<rparr>\<rparr>)"

definition update_pos_and_or :: "PlayerState \<Rightarrow> PlayerState" where
  "update_pos_and_or s =
     s\<lparr>position := proposed_position s, orientation := proposed_orientation s\<rparr>"

definition update_or :: "PlayerState \<Rightarrow> PlayerState" where
  "update_or s = s\<lparr>orientation := proposed_orientation s\<rparr>"

text \<open>The \<open>int32_t\<close> arguments are narrowed to the \<open>uint8_t\<close> fields.\<close>

definition propose_pos_and_or :: "32 word \<Rightarrow> 32 word \<Rightarrow> PlayerState \<Rightarrow> PlayerState" where
  "propose_pos_and_or p o' s = s\<lparr>proposed_position := ucast p, proposed_orientation := ucast o'\<rparr>"

record Config =
  terrain :: "64 word list"
  height :: "64 word"
  width :: "64 word"
  num_players :: "64 word"
  start_player_x :: "64 word list"
  start_player_y :: "64 word list"
  placement_in_pot_rew :: "64 word"
  dish_pickup_rew :: "64 word"
  soup_pickup_rew :: "64 word"
  recipe_values :: "64 word list"
  recipe_times :: "64 word list"
  horizon :: "64 word"

text \<open>
  \<open>objects\<close> and \<open>terrain\<close> are arrays of \<open>MAX_SIZE = 256\<close> entries indexed by
  \<open>uint8_t\<close> positions, so every index is in range and the arrays are total functions
  on \<open>8 word\<close>. \<open>pot_locs\<close> and \<open>counter_locs\<close> are kept as the lists of their filled
  entries, the small arrays as lists. The field \<open>size\<close> is called \<open>size_ws\<close> here.
\<close>

record WorldState =
  objects :: "8 word \<Rightarrow> Object"
  timestep :: "32 word"
  size_ws :: "8 word"
  num_players :: "8 word"
  terrain :: "8 word \<Rightarrow> TerrainT"
  height :: "8 word"
  width :: "8 word"
  start_player_x :: "8 word list"
  start_player_y :: "8 word list"
  placement_in_pot_rew :: "8 word"
  dish_pickup_rew :: "8 word"
  soup_pickup_rew :: "8 word"
  recipe_values :: "8 word list"
  recipe_times :: "8 word list"
  horizon :: "64 word"
  num_pots :: "8 word"
  pot_locs :: "8 word list"
  num_counters :: "8 word"
  counter_locs :: "8 word list"
  calculated_reward :: "64 word"

text \<open>The values of the enumerators of \<open>ActionT\<close> and \<open>TerrainT\<close>.\<close>

fun action_code :: "ActionT \<Rightarrow> 32 word" where
  "action_code NORTH = 0"
| "action_code SOUTH = 1"
| "action_code EAST = 2"
| "action_code WEST = 3"
| "action_code STAY = 4"
| "action_code INTERACT = 5"

definition terrain_of_code :: "64 word \<Rightarrow> TerrainT option" where
  "terrain_of_code c =
     (if c = 0 then Some AIR
      else if c = 1 then Some POT
      else if c = 2 then Some COUNTER
      else if c = 3 then Some ONION_SOURCE
      else if c = 4 then Some TOMATO_SOURCE
      else if c = 5 then Some DISH_SOURCE
      else if c = 6 then Some SERVING
      else None)"

section \<open>World construction\<close>

text \<open>
  A world is its \<open>WorldState\<close> and the \<open>PlayerState\<close> of its agents, in ascending
  order of \<open>AgentID\<close>.
\<close>

record Sim_state =
  ws :: WorldState
  agents :: "PlayerState list"

datatype config_error =
  TerrainLengthMismatch | TooManyPlayers | BadRecipeTable | BadStartPosition

text \<open>
  Modelled from the spec: the walkable terrain of \<open>sim.cpp\<close>, which is not among the
  sources. Pots, counters, sources and serving cells are not walkable.
\<close>

definition walkable :: "TerrainT \<Rightarrow> bool" where
  "walkable t \<longleftrightarrow> t = AIR"

text \<open>
  Modelled from the spec: the configuration checks of the constructor \<open>Sim::Sim\<close> in
  \<open>sim.cpp\<close>, which is not among the sources. The start position of agent \<open>i\<close> must
  lie within the grid on a walkable cell; cells are numbered row by row.
\<close>

definition start_ok :: "Config \<Rightarrow> nat \<Rightarrow> bool" where
  "start_ok cfg i \<longleftrightarrow>
     i < length (Config.start_player_x cfg) \<and> i < length (Config.start_player_y cfg) \<and>
     (let x = sint (Config.start_player_x cfg ! i); y = sint (Config.start_player_y cfg ! i);
          w = sint (Config.width cfg); h = sint (Config.height cfg)
      in 0 \<le> x \<and> x < w \<and> 0 \<le> y \<and> y < h \<and>
         nat (y * w + x) < length (Config.terrain cfg) \<and>
         (case terrain_of_code (Config.terrain cfg ! nat (y * w + x)) of
            Some t \<Rightarrow> walkable t | None \<Rightarrow> False))"

text \<open>
  Modelled from the spec: configuration-time validation (\<open>sim.cpp\<close>, not among the
  sources), the four checks the spec lists. The grid dimensions must match the length of
  the terrain array, the number of agents must not exceed \<open>MAX_NUM_PLAYERS\<close>, both
  recipe tables must have exactly \<open>NUM_RECIPES\<close> entries, and every agent must start on
  a walkable cell of the grid.
\<close>

definition validate :: "Config \<Rightarrow> config_error option" where
  "validate cfg =
     (if int (length (Config.terrain cfg)) \<noteq> sint (Config.height cfg) * sint (Config.width cfg)
        then Some TerrainLengthMismatch
      else if int MAX_NUM_PLAYERS < sint (Config.num_players cfg)
        then Some TooManyPlayers
      else if length (Config.recipe_values cfg) \<noteq> NUM_RECIPES
              \<or> length (Config.recipe_times cfg) \<noteq> NUM_RECIPES
        then Some BadRecipeTable
      else if \<not> list_all (start_ok cfg) [0..<nat (sint (Config.num_players cfg))]
        then Some BadStartPosition
      else None)"

text \<open>
  Modelled from the spec: the terrain array of the world (\<open>sim.cpp\<close>, not among the
  sources), filled from the flattened terrain codes of the configuration; an entry
  beyond the terrain codes, or with a code of no terrain, is \<open>AIR\<close>.
\<close>

definition init_terrain :: "Config \<Rightarrow> 8 word \<Rightarrow> TerrainT" where
  "init_terrain cfg i =
     (if unat i < length (Config.terrain cfg)
      then (case terrain_of_code (Config.terrain cfg ! unat i) of Some t \<Rightarrow> t | None \<Rightarrow> AIR)
      else AIR)"

text \<open>
  Modelled from the spec: the derived lists of pot and counter positions (\<open>sim.cpp\<close>, not
  among the sources): the cells of the grid with a given terrain, in ascending order.
\<close>

definition cells_with :: "Config \<Rightarrow> TerrainT \<Rightarrow> 8 word list" where
  "cells_with cfg t =
     filter (\<lambda>i. init_terrain cfg i = t) (map of_nat [0..<length (Config.terrain cfg)])"

text \<open>
  Modelled from the spec: the initial \<open>WorldState\<close> built by \<open>Sim::Sim\<close> (\<open>sim.cpp\<close>,
  not among the sources). The \<open>int64_t\<close> values of the configuration are narrowed to the
  \<open>uint8_t\<close> fields of \<open>WorldState\<close>; \<open>size\<close> is taken to be the narrowed product
  of height and width; every cell starts with the empty object.
\<close>

definition init_world_state :: "Config \<Rightarrow> WorldState" where
  "init_world_state cfg =
     \<lparr>objects = (\<lambda>i. Object_default),
      timestep = 0,
      size_ws = ucast (Config.height cfg * Config.width cfg),
      num_players = ucast (Config.num_players cfg),
      terrain = init_terrain cfg,
      height = ucast (Config.height cfg),
      width = ucast (Config.width cfg),
      start_player_x = map ucast (Config.start_player_x cfg),
      start_player_y = map ucast (Config.start_player_y cfg),
      placement_in_pot_rew = ucast (Config.placement_in_pot_rew cfg),
      dish_pickup_rew = ucast (Config.dish_pickup_rew cfg),
      soup_pickup_rew = ucast (Config.soup_pickup_rew cfg),
      recipe_values = map ucast (Config.recipe_values cfg),
      recipe_times = map ucast (Config.recipe_times cfg),
      horizon = Config.horizon cfg,
      num_pots = of_nat (length (cells_with cfg POT)),
      pot_locs = cells_with cfg POT,
      num_counters = of_nat (length (cells_with cfg COUNTER)),
      counter_locs = cells_with cfg COUNTER,
      calculated_reward = 0\<rparr>"

text \<open>
  Modelled from the spec: the start cell of agent \<open>i\<close> (\<open>sim.cpp\<close>, not among the
  sources), cells numbered row by row. A start entry missing from the world's arrays
  reads as 0.
\<close>

definition start_position :: "WorldState \<Rightarrow> nat \<Rightarrow> 8 word" where
  "start_position w i =
     (if i < length (start_player_x w) \<and> i < length (start_player_y w)
      then start_player_y w ! i * width w + start_player_x w ! i
      else 0)"

text \<open>
  Modelled from the spec: the \<open>PlayerState\<close> an agent gets at construction and at
  reset (\<open>sim.cpp\<close>, not among the sources): at its start cell, facing north, with empty
  hands.
\<close>

definition init_player :: "WorldState \<Rightarrow> nat \<Rightarrow> PlayerState" where
  "init_player w i =
     \<lparr>position = start_position w i,
      orientation = ucast (action_code NORTH),
      proposed_position = start_position w i,
      proposed_orientation = ucast (action_code NORTH),
      held_object = Object_default\<rparr>"

text \<open>
  Modelled from the spec: world construction (\<open>Sim::Sim\<close> in \<open>sim.cpp\<close>, not among the
  sources). A configuration that fails a check gives the error and no world; an accepted
  one gives the initial \<open>WorldState\<close> and one \<open>PlayerState\<close> for each agent.
\<close>

definition construct :: "Config \<Rightarrow> config_error + Sim_state" where
  "construct cfg =
     (case validate cfg of
        Some e \<Rightarrow> Inl e
      | None \<Rightarrow>
          Inr \<lparr>ws = init_world_state cfg,
               agents = map (init_player (init_world_state cfg))
                            [0..<nat (sint (Config.num_players cfg))]\<rparr>)"

section \<open>Movement\<close>

text \<open>
  Modelled from the spec: the neighbouring cell in a direction (\<open>sim.cpp\<close>, not among the
  sources). Cells are numbered row by row, north is the row above. The result is \<open>None\<close>
  when the position or the neighbour lies outside the grid, and for a code that is not a
  direction.
\<close>

definition move_in_direction :: "WorldState \<Rightarrow> 8 word \<Rightarrow> 8 word \<Rightarrow> 8 word option" where
  "move_in_direction w pos dir =
     (let wd = unat (width w); ht = unat (height w); p = unat pos
      in if \<not> p < wd * ht then None
         else if dir = ucast (action_code NORTH)
           then (if wd \<le> p then Some (pos - width w) else None)
         else if dir = ucast (action_code SOUTH)
           then (if p + wd < wd * ht then Some (pos + width w) else None)
         else if dir = ucast (action_code EAST)
           then (if p mod wd + 1 < wd then Some (pos + 1) else None)
         else if dir = ucast (action_code WEST)
           then (if 0 < p mod wd then Some (pos - 1) else None)
         else None)"

text \<open>
  Modelled from the spec: the four directional actions among the six of \<open>ActionT\<close>.
\<close>

definition is_direction :: "ActionT \<Rightarrow> bool" where
  "is_direction a \<longleftrightarrow> a = NORTH \<or> a = SOUTH \<or> a = EAST \<or> a = WEST"

text \<open>
  Modelled from the spec: the propose phase of the movement resolver (\<open>sim.cpp\<close>, not
  among the sources). A directional action proposes the neighbouring cell when it is
  inside the grid and walkable, other agents ignored, and otherwise the agent's own cell;
  in both cases it proposes to face the direction. \<open>STAY\<close> and \<open>INTERACT\<close> propose no
  change.
\<close>

definition propose :: "WorldState \<Rightarrow> ActionT \<Rightarrow> PlayerState \<Rightarrow> PlayerState" where
  "propose w a s =
     (if is_direction a then
        (case move_in_direction w (position s) (ucast (action_code a)) of
           Some d \<Rightarrow>
             if walkable (terrain w d) then propose_pos_and_or (ucast d) (action_code a) s
             else propose_pos_and_or (ucast (position s)) (action_code a) s
         | None \<Rightarrow> propose_pos_and_or (ucast (position s)) (action_code a) s)
      else propose_pos_and_or (ucast (position s)) (ucast (orientation s)) s)"

text \<open>
  Modelled from the spec: the propose phase for all agents (\<open>sim.cpp\<close>, not among the
  sources); \<open>acts i\<close> is the action of the agent with id \<open>i\<close>.
\<close>

definition propose_all :: "WorldState \<Rightarrow> (nat \<Rightarrow> ActionT) \<Rightarrow> PlayerState list \<Rightarrow> PlayerState list" where
  "propose_all w acts ps = map (\<lambda>i. propose w (acts i) (ps ! i)) [0..<length ps]"

text \<open>
  Modelled from the spec: conflict detection of the commit phase (\<open>sim.cpp\<close>, not among
  the sources). Agent \<open>i\<close> loses against another agent \<open>j\<close> when both propose the same
  cell and \<open>j\<close> has the lower id or is not leaving that cell, and when the two propose to
  swap their cells.
\<close>

definition conflicts_with :: "PlayerState list \<Rightarrow> nat \<Rightarrow> nat \<Rightarrow> bool" where
  "conflicts_with ps i j \<longleftrightarrow>
     j \<noteq> i \<and>
     ((proposed_position (ps ! j) = proposed_position (ps ! i)
         \<and> (j < i \<or> proposed_position (ps ! j) = position (ps ! j)))
      \<or> (proposed_position (ps ! j) = position (ps ! i)
         \<and> proposed_position (ps ! i) = position (ps ! j)))"

text \<open>
  Modelled from the spec: an agent is blocked when it loses a conflict against some
  other agent (\<open>sim.cpp\<close>, not among the sources).
\<close>

definition blocked :: "PlayerState list \<Rightarrow> nat \<Rightarrow> bool" where
  "blocked ps i \<longleftrightarrow> list_ex (conflicts_with ps i) [0..<length ps]"

text \<open>
  Modelled from the spec: the commit phase (\<open>sim.cpp\<close>, not among the sources). An agent
  that loses a conflict keeps its position and commits its proposed orientation
  (\<open>update_or\<close>); every other agent commits position and orientation
  (\<open>update_pos_and_or\<close>).
\<close>

definition commit :: "PlayerState list \<Rightarrow> PlayerState list" where
  "commit ps =
     map (\<lambda>i. if blocked ps i then update_or (ps ! i) else update_pos_and_or (ps ! i))
         [0..<length ps]"

text \<open>
  Modelled from the spec: the movement resolver (\<open>sim.cpp\<close>, not among the sources):
  all agents propose, then all commit.
\<close>

definition movement :: "WorldState \<Rightarrow> (nat \<Rightarrow> ActionT) \<Rightarrow> PlayerState list \<Rightarrow> PlayerState list" where
  "movement w acts ps = commit (propose_all w acts ps)"

section \<open>Interaction\<close>

text \<open>
  Modelled from the spec: a read of a recipe table (\<open>sim.cpp\<close>, not among the sources).
  An index outside the table, where the read is undefined in C++, gives \<open>None\<close>.
\<close>

definition table_lookup :: "8 word list \<Rightarrow> 8 word \<Rightarrow> 8 word option" where
  "table_lookup tbl i = (if unat i < length tbl then Some (tbl ! unat i) else None)"

text \<open>
  Modelled from the spec: starting to cook (\<open>sim.cpp\<close>, not among the sources). The
  cooking progress is set to the cook time of the pot's composition, read from
  \<open>recipe_times\<close> at \<open>get_recipe\<close>; the \<open>uint8_t\<close> entry is stored in the \<open>int8_t\<close>
  field \<open>cooking_tick\<close>. Without a table entry the pot is left as it is.
\<close>

definition start_cooking :: "WorldState \<Rightarrow> Object \<Rightarrow> Object" where
  "start_cooking w pot =
     (case table_lookup (recipe_times w) (get_recipe pot) of
        Some t \<Rightarrow> pot\<lparr>cooking_tick := t\<rparr>
      | None \<Rightarrow> pot)"

text \<open>
  Modelled from the spec: adding one onion or tomato to a pot (\<open>sim.cpp\<close>, not among the
  sources); the count is a \<open>uint8_t\<close>, and the pot then holds a soup.
\<close>

definition add_ingredient :: "ObjectT \<Rightarrow> Object \<Rightarrow> Object" where
  "add_ingredient ing pot =
     (if ing = ONION then pot\<lparr>name := SOUP, num_onions := num_onions pot + 1\<rparr>
      else pot\<lparr>name := SOUP, num_tomatoes := num_tomatoes pot + 1\<rparr>)"

text \<open>
  Modelled from the spec: adding a \<open>uint8_t\<close> reward of the world to the reward
  accumulator \<open>calculated_reward\<close> (\<open>sim.cpp\<close>, not among the sources).
\<close>

definition add_reward :: "8 word \<Rightarrow> WorldState \<Rightarrow> WorldState" where
  "add_reward r w = w\<lparr>calculated_reward := calculated_reward w + ucast r\<rparr>"

text \<open>
  Modelled from the spec: interaction with a pot at cell \<open>c\<close> (\<open>sim.cpp\<close>, not among the
  sources). A held onion or tomato goes into a pot that holds fewer than
  \<open>MAX_NUM_INGREDIENTS\<close> ingredients and is not cooking (its progress is the sentinel);
  the hands are cleared and the placement reward is granted; when the new composition is
  a valid recipe, cooking starts. A held dish takes the soup out of a pot whose progress
  has reached zero; the pot becomes empty and the dish pickup reward is granted. Which
  compositions are valid recipes is the parameter \<open>valid\<close>.
\<close>

definition interact_pot ::
  "(WorldState \<Rightarrow> Object \<Rightarrow> bool) \<Rightarrow> WorldState \<Rightarrow> PlayerState \<Rightarrow> 8 word
     \<Rightarrow> WorldState \<times> PlayerState" where
  "interact_pot valid w s c =
     (let pot = objects w c; held = get_object s
      in if (name held = ONION \<or> name held = TOMATO)
            \<and> unat (num_ingredients pot) < MAX_NUM_INGREDIENTS
            \<and> cooking_tick pot = - 1
         then
           (let pot1 = add_ingredient (name held) pot;
                pot2 = (if valid w pot1 then start_cooking w pot1 else pot1)
            in (add_reward (placement_in_pot_rew w) (w\<lparr>objects := (objects w)(c := pot2)\<rparr>),
                snd (remove_object s)))
         else if name held = DISH \<and> cooking_tick pot = 0 \<and> name pot = SOUP
         then (add_reward (dish_pickup_rew w) (w\<lparr>objects := (objects w)(c := Object_default)\<rparr>),
               set_object pot s)
         else (w, s))"

text \<open>
  Modelled from the spec: interaction with a counter at cell \<open>c\<close> (\<open>sim.cpp\<close>, not among
  the sources): empty hands pick up the object on the counter, a held object is put on an
  empty counter.
\<close>

definition interact_counter :: "WorldState \<Rightarrow> PlayerState \<Rightarrow> 8 word \<Rightarrow> WorldState \<times> PlayerState" where
  "interact_counter w s c =
     (if \<not> has_object s \<and> name (objects w c) \<noteq> NONE
        then (w\<lparr>objects := (objects w)(c := Object_default)\<rparr>, set_object (objects w c) s)
      else if has_object s \<and> name (objects w c) = NONE
        then (w\<lparr>objects := (objects w)(c := fst (remove_object s))\<rparr>, snd (remove_object s))
      else (w, s))"

text \<open>
  Modelled from the spec: serving (\<open>sim.cpp\<close>, not among the sources). A held soup is
  delivered: the value of its composition, read from \<open>recipe_values\<close> at \<open>get_recipe\<close>,
  and the soup pickup reward are granted and the hands are cleared.
\<close>

definition interact_serving :: "WorldState \<Rightarrow> PlayerState \<Rightarrow> WorldState \<times> PlayerState" where
  "interact_serving w s =
     (if name (get_object s) = SOUP
      then (add_reward (soup_pickup_rew w)
              (case table_lookup (recipe_values w) (get_recipe (get_object s)) of
                 Some v \<Rightarrow> add_reward v w
               | None \<Rightarrow> w),
            snd (remove_object s))
      else (w, s))"

text \<open>
  Modelled from the spec: interaction with a source (\<open>sim.cpp\<close>, not among the sources).
  Empty hands pick up an onion, a tomato or a dish: an \<open>Object\<close> of that name, its other
  fields at their defaults.
\<close>

definition pick_from_source :: "ObjectT \<Rightarrow> WorldState \<Rightarrow> PlayerState \<Rightarrow> WorldState \<times> PlayerState" where
  "pick_from_source n w s =
     (if has_object s then (w, s) else (w, set_object (Object_default\<lparr>name := n\<rparr>) s))"

text \<open>
  Modelled from the spec: the interaction resolver for one agent (\<open>sim.cpp\<close>, not among
  the sources), on the cell the agent faces: the neighbour of its position in the
  direction of its orientation. Without such a cell, and on a free cell, nothing happens.
\<close>

definition interact ::
  "(WorldState \<Rightarrow> Object \<Rightarrow> bool) \<Rightarrow> WorldState \<Rightarrow> PlayerState \<Rightarrow> WorldState \<times> PlayerState" where
  "interact valid w s =
     (case move_in_direction w (position s) (orientation s) of
        None \<Rightarrow> (w, s)
      | Some c \<Rightarrow>
          (case terrain w c of
             AIR \<Rightarrow> (w, s)
           | POT \<Rightarrow> interact_pot valid w s c
           | COUNTER \<Rightarrow> interact_counter w s c
           | ONION_SOURCE \<Rightarrow> pick_from_source ONION w s
           | TOMATO_SOURCE \<Rightarrow> pick_from_source TOMATO w s
           | DISH_SOURCE \<Rightarrow> pick_from_source DISH w s
           | SERVING \<Rightarrow> interact_serving w s))"

text \<open>
  Modelled from the spec: the interaction stage (\<open>sim.cpp\<close>, not among the sources). The
  agents that chose \<open>INTERACT\<close> are served in ascending order of their ids, the first
  agent of the list having id \<open>i\<close>.
\<close>

fun interact_from ::
  "(WorldState \<Rightarrow> Object \<Rightarrow> bool) \<Rightarrow> (nat \<Rightarrow> ActionT) \<Rightarrow> nat \<Rightarrow> WorldState
     \<Rightarrow> PlayerState list \<Rightarrow> WorldState \<times> PlayerState list" where
  "interact_from valid acts i w [] = (w, [])"
| "interact_from valid acts i w (s # ps) =
     (let (w1, s1) = (if acts i = INTERACT then interact valid w s else (w, s));
          (w2, ps2) = interact_from valid acts (Suc i) w1 ps
      in (w2, s1 # ps2))"

section \<open>Cooking and the episode\<close>

text \<open>
  Modelled from the spec: the pot cooking state machine (\<open>sim.cpp\<close>, not among the
  sources). A pot is cooking while its progress is above zero; each tick lowers the
  progress of every cooking pot by one.
\<close>

definition cook_step :: "Object \<Rightarrow> Object" where
  "cook_step obj =
     (if 0 < sint (cooking_tick obj) then obj\<lparr>cooking_tick := cooking_tick obj - 1\<rparr> else obj)"

text \<open>
  Modelled from the spec: the cooking stage (\<open>sim.cpp\<close>, not among the sources): one
  cooking step for each of the \<open>num_pots\<close> pots of \<open>pot_locs\<close>.
\<close>

definition advance_pots :: "WorldState \<Rightarrow> WorldState" where
  "advance_pots w =
     w\<lparr>objects := fold (\<lambda>c f. f(c := cook_step (f c)))
                       (take (unat (num_pots w)) (pot_locs w)) (objects w)\<rparr>"

text \<open>
  Modelled from the spec: the episode controller (\<open>sim.cpp\<close>, not among the sources).
  The timestep is incremented; when it reaches the horizon, or the reset signal
  \<open>resetNow\<close> is set, the objects of the grid are cleared, the agents are put back at
  their start positions with empty hands, and timestep and reward accumulator are zeroed.
\<close>

definition episode_check :: "32 word \<Rightarrow> Sim_state \<Rightarrow> Sim_state" where
  "episode_check resetNow st =
     (let w = (ws st)\<lparr>timestep := timestep (ws st) + 1\<rparr>
      in if sint (horizon w) \<le> sint (timestep w) \<or> resetNow \<noteq> 0
         then \<lparr>ws = w\<lparr>objects := (\<lambda>i. Object_default), timestep := 0, calculated_reward := 0\<rparr>,
               agents = map (init_player w) [0..<length (agents st)]\<rparr>
         else st\<lparr>ws := w\<rparr>)"

text \<open>
  Modelled from the spec: one tick (\<open>sim.cpp\<close>, not among the sources): propose, commit,
  interact, advance the pots, check the episode. The reward accumulator holds the rewards
  of the current tick. The action mask, the observation and the reward output are computed
  from the state and do not change it.
\<close>

definition tick ::
  "(WorldState \<Rightarrow> Object \<Rightarrow> bool) \<Rightarrow> (nat \<Rightarrow> ActionT) \<Rightarrow> 32 word \<Rightarrow> Sim_state \<Rightarrow> Sim_state" where
  "tick valid acts resetNow st =
     (let w0 = (ws st)\<lparr>calculated_reward := 0\<rparr>;
          ps = movement w0 acts (agents st);
          (w1, ps1) = interact_from valid acts 0 w0 ps
      in episode_check resetNow \<lparr>ws = advance_pots w1, agents = ps1\<rparr>)"

text \<open>
  Modelled from the spec: the reachable states of a configuration: the constructed state,
  and every state a tick leads to from a reachable state, for any actions and any reset
  signal.
\<close>

inductive reachable ::
  "(WorldState \<Rightarrow> Object \<Rightarrow> bool) \<Rightarrow> Config \<Rightarrow> Sim_state \<Rightarrow> bool"
  for valid :: "WorldState \<Rightarrow> Object \<Rightarrow> bool" and cfg :: Config where
  reachable_init: "construct cfg = Inr st \<Longrightarrow> reachable valid cfg st"
| reachable_tick: "reachable valid cfg st \<Longrightarrow> reachable valid cfg (tick valid acts resetNow st)"

text \<open>
  Modelled from the spec: the invariant of an \<open>Object\<close>, onions plus tomatoes at most
  \<open>MAX_NUM_INGREDIENTS\<close>; \<open>objects_ok\<close> states it for the object of every cell.
\<close>

definition ingredients_ok :: "Object \<Rightarrow> bool" where
  "ingredients_ok obj \<longleftrightarrow>
     unat (num_onions obj) + unat (num_tomatoes obj) \<le> MAX_NUM_INGREDIENTS"

definition objects_ok :: "WorldState \<Rightarrow> bool" where
  "objects_ok w \<longleftrightarrow> (\<forall>c. ingredients_ok (objects w c))"

section \<open>Example worlds\<close>

text \<open>
  A kitchen of one row: an onion source, a free cell and a pot, one agent on the free
  cell; every recipe takes \<open>t\<close> ticks. A composition counts as a valid recipe here when
  the pot is full.
\<close>

definition valid_full :: "WorldState \<Rightarrow> Object \<Rightarrow> bool" where
  "valid_full w obj \<longleftrightarrow> unat (num_ingredients obj) = MAX_NUM_INGREDIENTS"

definition ex_kitchen :: "64 word \<Rightarrow> Config" where
  "ex_kitchen t =
     \<lparr>Config.terrain = [3, 0, 1], Config.height = 1, Config.width = 3,
      Config.num_players = 1, Config.start_player_x = [1], Config.start_player_y = [0],
      Config.placement_in_pot_rew = 3, Config.dish_pickup_rew = 3,
      Config.soup_pickup_rew = 5, Config.recipe_values = replicate 16 20,
      Config.recipe_times = replicate 16 t, Config.horizon = 400\<rparr>"

text \<open>The kitchen with two onions in the pot, and a cook with an onion facing the pot.\<close>

definition ex_world :: "64 word \<Rightarrow> WorldState" where
  "ex_world t =
     (init_world_state (ex_kitchen t))
       \<lparr>objects := (\<lambda>i. Object_default)
          (2 := \<lparr>name = SOUP, num_onions = 2, num_tomatoes = 0, cooking_tick = - 1\<rparr>)\<rparr>"

definition ex_cook :: PlayerState where
  "ex_cook =
     \<lparr>position = 1, orientation = 2, proposed_position = 1, proposed_orientation = 2,
      held_object = Object_default\<lparr>name := ONION\<rparr>\<rparr>"

text \<open>Two ticks in the kitchen: the agent turns to the onion source and takes an onion.\<close>

definition ex_state :: Sim_state where
  "ex_state =
     tick valid_full (\<lambda>i. INTERACT) 0
       (tick valid_full (\<lambda>i. WEST) 0 (projr (construct (ex_kitchen 20))))"

text \<open>A corridor of three free cells with an agent at each end, both heading for the middle.\<close>

definition ex_corridor :: Config where
  "ex_corridor =
     \<lparr>Config.terrain = [0, 0, 0], Config.height = 1, Config.width = 3,
      Config.num_players = 2, Config.start_player_x = [0, 2], Config.start_player_y = [0, 0],
      Config.placement_in_pot_rew = 3, Config.dish_pickup_rew = 3,
      Config.soup_pickup_rew = 5, Config.recipe_values = replicate 16 20,
      Config.recipe_times = replicate 16 20, Config.horizon = 400\<rparr>"

definition ex_towards :: "nat \<Rightarrow> ActionT" where
  "ex_towards i = (if i = 0 then EAST else WEST)"

text \<open>
  A grid of 16 by 16 free cells with two agents in its first row: it has as many cells as
  the arrays \<open>objects\<close> and \<open>terrain\<close> of \<open>WorldState\<close>.
\<close>

definition ex_full_grid :: Config where
  "ex_full_grid =
     \<lparr>Config.terrain = replicate 256 0, Config.height = 16, Config.width = 16,
      Config.num_players = 2, Config.start_player_x = [0, 1], Config.start_player_y = [0, 0],
      Config.placement_in_pot_rew = 3, Config.dish_pickup_rew = 3,
      Config.soup_pickup_rew = 5, Config.recipe_values = replicate 16 20,
      Config.recipe_times = replicate 16 20, Config.horizon = 400\<rparr>"

section \<open>Properties of the header's methods\<close>

text \<open>
  C7: \<open>has_object\<close> holds exactly when the held object's name is not \<open>NONE\<close>; after
  \<open>remove_object\<close> the held object has name \<open>NONE\<close>, no onions, no tomatoes and the
  cooking tick at the sentinel \<open>-1\<close>, so \<open>has_object\<close> is false.
\<close>

theorem has_object_remove_object:
  "(has_object s \<longleftrightarrow> name (held_object s) \<noteq> NONE)
   \<and> name (held_object (snd (remove_object s))) = NONE
   \<and> num_onions (held_object (snd (remove_object s))) = 0
   \<and> num_tomatoes (held_object (snd (remove_object s))) = 0
   \<and> sint (cooking_tick (held_object (snd (remove_object s)))) = - 1
   \<and> \<not> has_object (snd (remove_object s))"
  by (simp add: has_object_def remove_object_def)

text \<open>
  C9: \<open>set_object obj\<close> followed by \<open>remove_object\<close> returns \<open>obj\<close> itself and leaves
  the player with empty hands.
\<close>

theorem set_remove_roundtrip:
  "fst (remove_object (set_object obj s)) = obj
   \<and> held_object (snd (remove_object (set_object obj s))) = Object_default
   \<and> \<not> has_object (snd (remove_object (set_object obj s)))"
  by (simp add: has_object_def remove_object_def set_object_def Object_default_def)

text \<open>
  C10: \<open>update_or\<close> sets the orientation to the proposed orientation and changes no
  other field; \<open>update_pos_and_or\<close> sets position and orientation to the proposed values
  and changes neither the proposed fields nor the held object.
\<close>

theorem update_frame:
  "update_or s = s\<lparr>orientation := proposed_orientation s\<rparr>
   \<and> orientation (update_or s) = proposed_orientation s
   \<and> position (update_or s) = position s
   \<and> proposed_position (update_or s) = proposed_position s
   \<and> proposed_orientation (update_or s) = proposed_orientation s
   \<and> held_object (update_or s) = held_object s
   \<and> position (update_pos_and_or s) = proposed_position s
   \<and> orientation (update_pos_and_or s) = proposed_orientation s
   \<and> proposed_position (update_pos_and_or s) = proposed_position s
   \<and> proposed_orientation (update_pos_and_or s) = proposed_orientation s
   \<and> held_object (update_pos_and_or s) = held_object s"
  by (simp add: update_or_def update_pos_and_or_def)

section \<open>Word arithmetic\<close>

lemma unat_get_recipe:
  "unat (get_recipe obj) =
     ((MAX_NUM_INGREDIENTS + 1) * unat (num_onions obj) + unat (num_tomatoes obj)) mod 256"
  unfolding get_recipe_def by (simp only: unat_of_nat) simp

lemma ucast_ucast_8_32 [simp]: "(ucast (ucast (d :: 8 word) :: 32 word) :: 8 word) = d"
  by (rule bit_word_eqI) (auto simp add: bit_ucast_iff bit_imp_le_length)

lemma mod_256_shift:
  assumes "0 \<le> (k :: int)" "k < 256"
  shows "(k + 128) mod 256 = (if k < 128 then k + 128 else k - 128)"
proof (cases "k < 128")
  case True
  with assms(1) show ?thesis by simp
next
  case False
  have "(k + 128) mod 256 = (k + 128 - 256) mod 256"
    by (simp only: minus_mod_self2)
  also have "\<dots> = k - 128" using False assms(2) by simp
  finally show ?thesis using False by simp
qed

lemma sint_u8:
  "sint (t :: 8 word) = (if uint t < 128 then uint t else uint t - 256)"
proof -
  have b: "0 \<le> uint t" "uint t < 256"
    using uint_lt2p [of t] by simp_all
  have "sint t = signed_take_bit 7 (uint t)"
    by (simp only: sint_uint) simp
  also have "\<dots> = (uint t + 128) mod 256 - 128"
    by (simp only: signed_take_bit_eq_take_bit_shift take_bit_eq_mod) simp
  also have "\<dots> = (if uint t < 128 then uint t + 128 else uint t - 128) - 128"
    by (simp only: mod_256_shift [OF b])
  finally show ?thesis
    by simp
qed

section \<open>The recipe index\<close>

lemma unat_get_recipe_bounded:
  assumes "unat (num_onions obj) + unat (num_tomatoes obj) \<le> MAX_NUM_INGREDIENTS"
  shows "unat (get_recipe obj) =
     (MAX_NUM_INGREDIENTS + 1) * unat (num_onions obj) + unat (num_tomatoes obj)"
  unfolding unat_get_recipe using assms by (simp add: MAX_NUM_INGREDIENTS_def)

text \<open>
  C1: for every \<open>Object\<close> that satisfies the invariant of the data model, onions plus
  tomatoes at most \<open>MAX_NUM_INGREDIENTS\<close>, \<open>get_recipe\<close> returns
  \<open>(MAX_NUM_INGREDIENTS + 1) * onions + tomatoes\<close>; with \<open>MAX_NUM_INGREDIENTS = 3\<close>,
  two onions and one tomato give 9.
\<close>

theorem get_recipe_index:
  assumes "unat (num_onions obj) + unat (num_tomatoes obj) \<le> MAX_NUM_INGREDIENTS"
  shows "unat (get_recipe obj) =
       (MAX_NUM_INGREDIENTS + 1) * unat (num_onions obj) + unat (num_tomatoes obj)
     \<and> MAX_NUM_INGREDIENTS = 3
     \<and> get_recipe \<lparr>name = n, num_onions = 2, num_tomatoes = 1, cooking_tick = ct\<rparr> = 9"
proof -
  have "get_recipe \<lparr>name = n, num_onions = 2, num_tomatoes = 1, cooking_tick = ct\<rparr> = 9"
    by (simp add: get_recipe_def MAX_NUM_INGREDIENTS_def)
  with unat_get_recipe_bounded [OF assms] show ?thesis
    by (simp add: MAX_NUM_INGREDIENTS_def)
qed

theorem get_recipe_index_witness:
  "unat (2 :: 8 word) + unat (1 :: 8 word) \<le> MAX_NUM_INGREDIENTS
   \<and> unat (get_recipe \<lparr>name = SOUP, num_onions = 2, num_tomatoes = 1, cooking_tick = 0\<rparr>) = 9"
  using get_recipe_index
    [of "\<lparr>name = SOUP, num_onions = 2, num_tomatoes = 1, cooking_tick = 0\<rparr>"]
  by (simp add: MAX_NUM_INGREDIENTS_def)

text \<open>
  C8: when an object has at most \<open>MAX_NUM_INGREDIENTS\<close> onions and at most
  \<open>MAX_NUM_INGREDIENTS\<close> tomatoes, \<open>get_recipe\<close> is below \<open>NUM_RECIPES = 16\<close>, so a
  read of a recipe table of \<open>NUM_RECIPES\<close> entries at that index is inside the table.
\<close>

theorem get_recipe_in_bounds:
  assumes "unat (num_onions obj) \<le> MAX_NUM_INGREDIENTS"
    and "unat (num_tomatoes obj) \<le> MAX_NUM_INGREDIENTS"
  shows "unat (get_recipe obj) < NUM_RECIPES \<and> NUM_RECIPES = 16
     \<and> (length tbl = NUM_RECIPES \<longrightarrow>
          table_lookup tbl (get_recipe obj) = Some (tbl ! unat (get_recipe obj)))"
proof -
  have "unat (get_recipe obj) < NUM_RECIPES"
    unfolding unat_get_recipe using assms
    by (simp add: MAX_NUM_INGREDIENTS_def NUM_RECIPES_def)
  then show ?thesis
    by (simp add: table_lookup_def NUM_RECIPES_def MAX_NUM_INGREDIENTS_def)
qed

theorem get_recipe_in_bounds_witness:
  "unat (3 :: 8 word) \<le> MAX_NUM_INGREDIENTS
   \<and> length (replicate 16 (7 :: 8 word)) = NUM_RECIPES
   \<and> unat (get_recipe \<lparr>name = SOUP, num_onions = 3, num_tomatoes = 3, cooking_tick = 0\<rparr>)
        < NUM_RECIPES
   \<and> table_lookup (replicate 16 7)
        (get_recipe \<lparr>name = SOUP, num_onions = 3, num_tomatoes = 3, cooking_tick = 0\<rparr>) = Some 7"
  using get_recipe_in_bounds
    [of "\<lparr>name = SOUP, num_onions = 3, num_tomatoes = 3, cooking_tick = 0\<rparr>" "replicate 16 7"]
  by (simp add: MAX_NUM_INGREDIENTS_def NUM_RECIPES_def)

section \<open>Movement conflicts\<close>

lemma move_in_direction_neq:
  assumes "move_in_direction w p d = Some c"
  shows "c \<noteq> p"
proof -
  from assms have "unat p < unat (width w) * unat (height w)"
    by (auto simp: move_in_direction_def Let_def split: if_splits)
  then have "unat (width w) \<noteq> 0" by (cases "unat (width w)") auto
  then have "width w \<noteq> 0" by (simp add: unat_eq_0)
  with assms show ?thesis
    by (auto simp: move_in_direction_def Let_def split: if_splits)
qed

lemma propose_walkable:
  assumes "is_direction a"
    and "move_in_direction w (position s) (ucast (action_code a)) = Some c"
    and "terrain w c = AIR"
  shows "propose w a s =
    s\<lparr>proposed_position := c, proposed_orientation := ucast (action_code a)\<rparr>"
  using assms by (simp add: propose_def walkable_def propose_pos_and_or_def)

text \<open>
  C4: when the agents with ids 0 and 1 both choose a directional action whose target is
  the same free cell \<open>c\<close>, then after the commit agent 0 stands on \<open>c\<close>, agent 1 stands
  where it stood before, which is not \<open>c\<close>, and agent 1 faces the direction it chose.
\<close>

theorem same_target_lower_id_moves:
  assumes "is_direction (acts 0)" and "is_direction (acts 1)"
    and "move_in_direction w (position p0) (ucast (action_code (acts 0))) = Some c"
    and "move_in_direction w (position p1) (ucast (action_code (acts 1))) = Some c"
    and "terrain w c = AIR"
  shows "length (movement w acts [p0, p1]) = 2
    \<and> position (movement w acts [p0, p1] ! 0) = c
    \<and> position (movement w acts [p0, p1] ! 1) = position p1
    \<and> position (movement w acts [p0, p1] ! 1) \<noteq> c
    \<and> orientation (movement w acts [p0, p1] ! 1) = ucast (action_code (acts 1))"
proof -
  have n0: "c \<noteq> position p0" and n1: "c \<noteq> position p1"
    using assms(3,4) by (auto dest: move_in_direction_neq)
  have pr: "propose_all w acts [p0, p1] =
      [p0\<lparr>proposed_position := c, proposed_orientation := ucast (action_code (acts 0))\<rparr>,
       p1\<lparr>proposed_position := c, proposed_orientation := ucast (action_code (acts 1))\<rparr>]"
    using assms by (simp add: propose_all_def propose_walkable upt_rec)
  show ?thesis
    unfolding movement_def pr using n0 n1
    by (simp add: commit_def blocked_def conflicts_with_def update_or_def
        update_pos_and_or_def upt_rec)
qed

theorem same_target_lower_id_moves_witness:
  "is_direction (ex_towards 0) \<and> is_direction (ex_towards 1)
   \<and> move_in_direction (init_world_state ex_corridor)
        (position (init_player (init_world_state ex_corridor) 0))
        (ucast (action_code (ex_towards 0))) = Some 1
   \<and> move_in_direction (init_world_state ex_corridor)
        (position (init_player (init_world_state ex_corridor) 1))
        (ucast (action_code (ex_towards 1))) = Some 1
   \<and> terrain (init_world_state ex_corridor) 1 = AIR
   \<and> position (movement (init_world_state ex_corridor) ex_towards
        [init_player (init_world_state ex_corridor) 0,
         init_player (init_world_state ex_corridor) 1] ! 0) = 1
   \<and> position (movement (init_world_state ex_corridor) ex_towards
        [init_player (init_world_state ex_corridor) 0,
         init_player (init_world_state ex_corridor) 1] ! 1) = 2
   \<and> orientation (movement (init_world_state ex_corridor) ex_towards
        [init_player (init_world_state ex_corridor) 0,
         init_player (init_world_state ex_corridor) 1] ! 1) = 3"
proof -
  have d: "is_direction (ex_towards 0)" "is_direction (ex_towards 1)"
    by (simp_all add: is_direction_def ex_towards_def)
  have m0: "move_in_direction (init_world_state ex_corridor)
        (position (init_player (init_world_state ex_corridor) 0))
        (ucast (action_code (ex_towards 0))) = Some 1"
    by code_simp
  have m1: "move_in_direction (init_world_state ex_corridor)
        (position (init_player (init_world_state ex_corridor) 1))
        (ucast (action_code (ex_towards 1))) = Some 1"
    by code_simp
  have t: "terrain (init_world_state ex_corridor) 1 = AIR"
    by code_simp
  have p1: "position (init_player (init_world_state ex_corridor) 1) = 2"
    by code_simp
  have o1: "(ucast (action_code (ex_towards 1)) :: 8 word) = 3"
    by code_simp
  from same_target_lower_id_moves [OF d m0 m1 t] d m0 m1 t p1 o1
  show ?thesis by (simp only:)
qed

section \<open>The ingredient bound is an invariant\<close>

lemma ingredients_ok_default [simp]: "ingredients_ok Object_default"
  by (simp add: ingredients_ok_def Object_default_def)

lemma ingredients_ok_name [simp]: "ingredients_ok (obj\<lparr>name := n\<rparr>) = ingredients_ok obj"
  by (simp add: ingredients_ok_def)

lemma ingredients_ok_cooking_tick [simp]:
  "ingredients_ok (obj\<lparr>cooking_tick := t\<rparr>) = ingredients_ok obj"
  by (simp add: ingredients_ok_def)

lemma unat_num_ingredients:
  "ingredients_ok obj \<Longrightarrow>
   unat (num_ingredients obj) = unat (num_onions obj) + unat (num_tomatoes obj)"
  unfolding num_ingredients_def ingredients_ok_def MAX_NUM_INGREDIENTS_def
  by (simp only: unat_of_nat) simp

lemma unat_succ_small: "unat (x :: 8 word) < 3 \<Longrightarrow> unat (x + 1) = unat x + 1"
  by (simp add: unat_word_ariths)

lemma add_ingredient_ok:
  assumes "ingredients_ok pot" and "unat (num_ingredients pot) < MAX_NUM_INGREDIENTS"
  shows "ingredients_ok (add_ingredient ing pot)"
proof -
  from assms have s: "unat (num_onions pot) + unat (num_tomatoes pot) < 3"
    by (simp add: unat_num_ingredients MAX_NUM_INGREDIENTS_def)
  then have "unat (num_onions pot) < 3" "unat (num_tomatoes pot) < 3" by auto
  then have "unat (num_onions pot + 1) = unat (num_onions pot) + 1"
    "unat (num_tomatoes pot + 1) = unat (num_tomatoes pot) + 1"
    by (simp_all add: unat_succ_small)
  with s show ?thesis
    by (simp add: add_ingredient_def ingredients_ok_def MAX_NUM_INGREDIENTS_def)
qed

lemma start_cooking_ok [simp]: "ingredients_ok (start_cooking w pot) = ingredients_ok pot"
  by (simp add: start_cooking_def split: option.splits)

lemma cook_step_ok [simp]: "ingredients_ok (cook_step obj) = ingredients_ok obj"
  by (simp add: cook_step_def)

lemma objects_add_reward [simp]: "objects (add_reward r w) = objects w"
  by (simp add: add_reward_def)

lemma objects_ok_add_reward [simp]: "objects_ok (add_reward r w) = objects_ok w"
  by (simp add: objects_ok_def)

lemma objects_ok_upd:
  "objects_ok w \<Longrightarrow> ingredients_ok obj \<Longrightarrow> objects_ok (w\<lparr>objects := (objects w)(c := obj)\<rparr>)"
  by (simp add: objects_ok_def)

lemma held_after_remove [simp]: "ingredients_ok (held_object (snd (remove_object s)))"
  by (simp add: remove_object_def ingredients_ok_def)

lemma interact_pot_ok:
  assumes "objects_ok w" and "ingredients_ok (held_object s)"
    and "interact_pot valid w s c = (w', s')"
  shows "objects_ok w' \<and> ingredients_ok (held_object s')"
proof -
  have pot: "ingredients_ok (objects w c)" using assms(1) by (simp add: objects_ok_def)
  show ?thesis
    using assms pot
    by (auto simp: interact_pot_def Let_def get_object_def set_object_def
        intro!: objects_ok_upd add_ingredient_ok split: if_splits)
qed

lemma interact_counter_ok:
  assumes "objects_ok w" and "ingredients_ok (held_object s)"
    and "interact_counter w s c = (w', s')"
  shows "objects_ok w' \<and> ingredients_ok (held_object s')"
proof -
  have "ingredients_ok (objects w c)" using assms(1) by (simp add: objects_ok_def)
  with assms show ?thesis
    by (auto simp: interact_counter_def set_object_def remove_object_def ingredients_ok_def
        objects_ok_def Object_default_def split: if_splits)
qed

lemma interact_serving_ok:
  assumes "objects_ok w" and "ingredients_ok (held_object s)"
    and "interact_serving w s = (w', s')"
  shows "objects_ok w' \<and> ingredients_ok (held_object s')"
  using assms by (auto simp: interact_serving_def split: if_splits option.splits)

lemma pick_from_source_ok:
  assumes "objects_ok w" and "ingredients_ok (held_object s)"
    and "pick_from_source n w s = (w', s')"
  shows "objects_ok w' \<and> ingredients_ok (held_object s')"
  using assms by (auto simp: pick_from_source_def set_object_def split: if_splits)

lemma interact_ok:
  assumes "objects_ok w" and "ingredients_ok (held_object s)"
    and "interact valid w s = (w', s')"
  shows "objects_ok w' \<and> ingredients_ok (held_object s')"
  using assms
  by (auto simp: interact_def split: option.splits TerrainT.splits
      dest: interact_pot_ok interact_counter_ok interact_serving_ok pick_from_source_ok)

lemma interact_from_ok:
  assumes "objects_ok w" and "\<forall>s\<in>set ps. ingredients_ok (held_object s)"
    and "interact_from valid acts i w ps = (w', ps')"
  shows "objects_ok w' \<and> (\<forall>s\<in>set ps'. ingredients_ok (held_object s))"
  using assms
proof (induction ps arbitrary: i w w' ps')
  case Nil
  then show ?case by simp
next
  case (Cons s ps)
  obtain w1 s1 where
    step: "(if acts i = INTERACT then interact valid w s else (w, s)) = (w1, s1)"
    by (cases "if acts i = INTERACT then interact valid w s else (w, s)")
  obtain w2 ps2 where rest: "interact_from valid acts (Suc i) w1 ps = (w2, ps2)"
    by (cases "interact_from valid acts (Suc i) w1 ps")
  have ok1: "objects_ok w1 \<and> ingredients_ok (held_object s1)"
    using step Cons.prems(1,2) by (auto split: if_splits dest: interact_ok)
  have ok2: "objects_ok w2 \<and> (\<forall>s\<in>set ps2. ingredients_ok (held_object s))"
    using Cons.IH [OF _ _ rest] ok1 Cons.prems(2) by simp
  from Cons.prems(3) step rest have "w' = w2" "ps' = s1 # ps2" by simp_all
  with ok1 ok2 show ?case by simp
qed

lemma fold_cook_ok:
  "\<forall>c. ingredients_ok (f c) \<Longrightarrow>
   \<forall>c. ingredients_ok (fold (\<lambda>c f. f(c := cook_step (f c))) cs f c)"
  by (induction cs arbitrary: f) simp_all

lemma advance_pots_ok: "objects_ok w \<Longrightarrow> objects_ok (advance_pots w)"
  unfolding objects_ok_def advance_pots_def using fold_cook_ok by simp

lemma held_propose [simp]: "held_object (propose w a s) = held_object s"
  by (simp add: propose_def propose_pos_and_or_def split: option.splits)

lemma movement_held: "map held_object (movement w acts ps) = map held_object ps"
  by (rule nth_equalityI)
     (simp_all add: movement_def commit_def propose_all_def update_or_def update_pos_and_or_def)

lemma movement_ok:
  assumes "\<forall>s\<in>set ps. ingredients_ok (held_object s)"
  shows "\<forall>s\<in>set (movement w acts ps). ingredients_ok (held_object s)"
proof -
  have "\<forall>obj\<in>set (map held_object (movement w acts ps)). ingredients_ok obj"
    unfolding movement_held using assms by simp
  then show ?thesis by simp
qed

lemma episode_check_ok:
  assumes "objects_ok (ws st)" and "\<forall>s\<in>set (agents st). ingredients_ok (held_object s)"
  shows "objects_ok (ws (episode_check r st))
     \<and> (\<forall>s\<in>set (agents (episode_check r st)). ingredients_ok (held_object s))"
  using assms by (auto simp: episode_check_def Let_def objects_ok_def init_player_def)

lemma tick_ok:
  assumes "objects_ok (ws st)" and "\<forall>s\<in>set (agents st). ingredients_ok (held_object s)"
  shows "objects_ok (ws (tick valid acts r st))
     \<and> (\<forall>s\<in>set (agents (tick valid acts r st)). ingredients_ok (held_object s))"
proof -
  let ?w0 = "(ws st)\<lparr>calculated_reward := 0\<rparr>"
  obtain w1 ps1 where
    i: "interact_from valid acts 0 ?w0 (movement ?w0 acts (agents st)) = (w1, ps1)"
    by (cases "interact_from valid acts 0 ?w0 (movement ?w0 acts (agents st))")
  have "objects_ok ?w0" using assms(1) by (simp add: objects_ok_def)
  from interact_from_ok [OF this movement_ok [OF assms(2)] i]
  have "objects_ok w1" "\<forall>s\<in>set ps1. ingredients_ok (held_object s)" by simp_all
  then have "objects_ok (ws \<lparr>ws = advance_pots w1, agents = ps1\<rparr>)"
    "\<forall>s\<in>set (agents \<lparr>ws = advance_pots w1, agents = ps1\<rparr>). ingredients_ok (held_object s)"
    by (simp_all add: advance_pots_ok)
  from episode_check_ok [OF this] show ?thesis
    by (simp add: tick_def Let_def i)
qed

lemma construct_ok:
  assumes "construct cfg = Inr st"
  shows "objects_ok (ws st) \<and> (\<forall>s\<in>set (agents st). ingredients_ok (held_object s))"
  using assms
  by (auto simp: construct_def init_world_state_def init_player_def objects_ok_def
      split: option.splits)

lemma validate_ex_kitchen: "validate (ex_kitchen 20) = None"
  by code_simp

lemma reachable_objects_ok:
  assumes "reachable valid cfg st"
  shows "objects_ok (ws st) \<and> (\<forall>s\<in>set (agents st). ingredients_ok (held_object s))"
  using assms
proof (induction rule: reachable.induct)
  case (reachable_init st)
  then show ?case by (rule construct_ok)
next
  case (reachable_tick st acts resetNow)
  then show ?case using tick_ok [of st valid acts resetNow] by simp
qed

text \<open>
  The objects of a reachable state satisfy the invariant, so on each of them, in a cell or
  in an agent's hands, \<open>get_recipe\<close> is the index of the recipe tables without
  wrap-around.
\<close>

lemma get_recipe_index_reachable:
  assumes "reachable valid cfg st"
  shows "(\<forall>c. unat (get_recipe (objects (ws st) c)) =
              (MAX_NUM_INGREDIENTS + 1) * unat (num_onions (objects (ws st) c))
                + unat (num_tomatoes (objects (ws st) c)))
       \<and> (\<forall>s\<in>set (agents st). unat (get_recipe (held_object s)) =
              (MAX_NUM_INGREDIENTS + 1) * unat (num_onions (held_object s))
                + unat (num_tomatoes (held_object s)))"
  using reachable_objects_ok [OF assms]
  by (simp add: objects_ok_def ingredients_ok_def unat_get_recipe_bounded)

text \<open>
  C2: in every reachable state, the object of every cell (the pots are cells) and the
  object every agent holds have at most \<open>MAX_NUM_INGREDIENTS\<close> onions and tomatoes
  together.
\<close>

theorem reachable_ingredients_bounded:
  assumes "reachable valid cfg st"
  shows "(\<forall>c. unat (num_onions (objects (ws st) c)) + unat (num_tomatoes (objects (ws st) c))
              \<le> MAX_NUM_INGREDIENTS)
       \<and> (\<forall>s\<in>set (agents st).
             unat (num_onions (held_object s)) + unat (num_tomatoes (held_object s))
              \<le> MAX_NUM_INGREDIENTS)"
proof -
  from assms have "objects_ok (ws st) \<and> (\<forall>s\<in>set (agents st). ingredients_ok (held_object s))"
  proof (induction rule: reachable.induct)
    case (reachable_init st)
    then show ?case by (rule construct_ok)
  next
    case (reachable_tick st acts resetNow)
    then show ?case using tick_ok [of st valid acts resetNow] by simp
  qed
  then show ?thesis by (simp add: objects_ok_def ingredients_ok_def)
qed

theorem reachable_ingredients_bounded_witness:
  "reachable valid_full (ex_kitchen 20) ex_state
   \<and> name (held_object (agents ex_state ! 0)) = ONION
   \<and> unat (num_onions (objects (ws ex_state) 2)) + unat (num_tomatoes (objects (ws ex_state) 2))
        \<le> MAX_NUM_INGREDIENTS
   \<and> agents ex_state ! 0 \<in> set (agents ex_state)
   \<and> unat (num_onions (held_object (agents ex_state ! 0)))
        + unat (num_tomatoes (held_object (agents ex_state ! 0))) \<le> MAX_NUM_INGREDIENTS"
proof -
  have "construct (ex_kitchen 20) = Inr (projr (construct (ex_kitchen 20)))"
    by (simp add: construct_def validate_ex_kitchen)
  then have "reachable valid_full (ex_kitchen 20) (projr (construct (ex_kitchen 20)))"
    by (rule reachable_init)
  then have r: "reachable valid_full (ex_kitchen 20) ex_state"
    unfolding ex_state_def by (intro reachable_tick)
  have n: "name (held_object (agents ex_state ! 0)) = ONION"
    by code_simp
  have "length (agents ex_state) = 1"
    by code_simp
  then have m: "agents ex_state ! 0 \<in> set (agents ex_state)"
    by simp
  from reachable_ingredients_bounded [OF r] r n m show ?thesis
    by blast
qed

section \<open>The cook time of a started pot\<close>

lemma interact_pot_placement:
  assumes "name (get_object s) = ONION \<or> name (get_object s) = TOMATO"
    and "unat (num_ingredients (objects w c)) < MAX_NUM_INGREDIENTS"
    and "cooking_tick (objects w c) = - 1"
    and "valid w (add_ingredient (name (get_object s)) (objects w c))"
    and "table_lookup (recipe_times w)
           (get_recipe (add_ingredient (name (get_object s)) (objects w c))) = Some t"
  shows "objects (fst (interact_pot valid w s c)) c =
           (add_ingredient (name (get_object s)) (objects w c))\<lparr>cooking_tick := t\<rparr>"
  using assms by (simp add: interact_pot_def Let_def start_cooking_def)

text \<open>
  C3, as the claim states it, fails: in the kitchen where every recipe takes 200 ticks,
  the cook puts the third onion into the pot, the composition is a valid recipe with the
  table entry 200, and the cooking progress of the pot, an \<open>int8_t\<close>, is not 200.
\<close>

theorem cooking_tick_counterexample:
  "valid_full (ex_world 200) (objects (fst (interact valid_full (ex_world 200) ex_cook)) 2)
   \<and> table_lookup (recipe_times (ex_world 200))
        (get_recipe (objects (fst (interact valid_full (ex_world 200) ex_cook)) 2)) = Some 200
   \<and> sint (cooking_tick (objects (fst (interact valid_full (ex_world 200) ex_cook)) 2)) \<noteq> 200"
  by code_simp

text \<open>
  C3, amended: when an agent facing the pot at cell \<open>c\<close> places an onion or a tomato and
  the new composition is a valid recipe whose entry \<open>t\<close> in \<open>recipe_times\<close> is at most
  127, a cook time the \<open>int8_t\<close> counter can hold, the cooking progress of the pot is
  exactly that cook time.
\<close>

theorem placement_sets_cook_time:
  assumes "move_in_direction w (position s) (orientation s) = Some c"
    and "terrain w c = POT"
    and "name (get_object s) = ONION \<or> name (get_object s) = TOMATO"
    and "unat (num_ingredients (objects w c)) < MAX_NUM_INGREDIENTS"
    and "cooking_tick (objects w c) = - 1"
    and "valid w (add_ingredient (name (get_object s)) (objects w c))"
    and "table_lookup (recipe_times w)
           (get_recipe (add_ingredient (name (get_object s)) (objects w c))) = Some t"
    and "uint t \<le> 127"
  shows "sint (cooking_tick (objects (fst (interact valid w s)) c)) = uint t"
proof -
  have "interact valid w s = interact_pot valid w s c"
    using assms(1,2) by (simp add: interact_def)
  then have "cooking_tick (objects (fst (interact valid w s)) c) = t"
    using interact_pot_placement [where valid = valid and w = w and s = s and c = c and t = t]
      assms(3-7) by simp
  with assms(8) show ?thesis by (simp add: sint_u8)
qed

theorem placement_sets_cook_time_witness:
  "move_in_direction (ex_world 20) (position ex_cook) (orientation ex_cook) = Some 2
   \<and> terrain (ex_world 20) 2 = POT
   \<and> name (get_object ex_cook) = ONION
   \<and> unat (num_ingredients (objects (ex_world 20) 2)) < MAX_NUM_INGREDIENTS
   \<and> cooking_tick (objects (ex_world 20) 2) = - 1
   \<and> valid_full (ex_world 20) (add_ingredient (name (get_object ex_cook)) (objects (ex_world 20) 2))
   \<and> table_lookup (recipe_times (ex_world 20))
        (get_recipe (add_ingredient (name (get_object ex_cook)) (objects (ex_world 20) 2)))
      = Some 20
   \<and> uint (20 :: 8 word) \<le> 127
   \<and> sint (cooking_tick (objects (fst (interact valid_full (ex_world 20) ex_cook)) 2)) = 20"
proof -
  have f: "move_in_direction (ex_world 20) (position ex_cook) (orientation ex_cook) = Some 2"
    by code_simp
  have p: "terrain (ex_world 20) 2 = POT"
    by code_simp
  have h: "name (get_object ex_cook) = ONION"
    by code_simp
  have r: "unat (num_ingredients (objects (ex_world 20) 2)) < MAX_NUM_INGREDIENTS"
    by code_simp
  have i: "cooking_tick (objects (ex_world 20) 2) = - 1"
    by code_simp
  have v: "valid_full (ex_world 20)
      (add_ingredient (name (get_object ex_cook)) (objects (ex_world 20) 2))"
    by code_simp
  have e: "table_lookup (recipe_times (ex_world 20))
        (get_recipe (add_ingredient (name (get_object ex_cook)) (objects (ex_world 20) 2)))
      = Some 20"
    by code_simp
  from placement_sets_cook_time
    [where valid = valid_full and w = "ex_world 20" and s = ex_cook and c = 2 and t = 20]
    f p h r i v e
  show ?thesis by simp
qed

section \<open>The size of a grid that fills the capacity\<close>

lemma upt_0_2: "[0..<2] = [0, Suc 0]"
  by (simp add: upt_rec)

lemma start_ok_ex_full_grid: "list_all (start_ok ex_full_grid) [0, Suc 0]"
  by (simp add: start_ok_def ex_full_grid_def terrain_of_code_def walkable_def)

text \<open>
  The configuration checks the spec lists accept the grid of 16 by 16 cells.
\<close>

lemma validate_ex_full_grid: "validate ex_full_grid = None"
  unfolding validate_def using start_ok_ex_full_grid
  by (simp add: ex_full_grid_def MAX_NUM_PLAYERS_def NUM_RECIPES_def
      MAX_NUM_INGREDIENTS_def upt_0_2)


end
